theory Spec2Isabelle
  imports Complex_Main
begin

section \<open>The guarded input mapping of a box (class BoxInputDict of fio/box.py)\<close>

text \<open>
  The input mapping is a Python dict whose values are floats, booleans and strings.
  A value is one of the three; Python's \<open>value != 90\<close> is then \<open>v \<noteq> Num 90\<close>
  (no boolean and no string equals 90), and \<open>not value\<close> is \<open>\<not> truthy v\<close>.
  Numbers are real numbers: the IEEE special values are outside this model.
\<close>

datatype val = Num real | Bool bool | Str string

datatype error =
    KeyError string
  | TypeError string
  | ValueError string
  | IndexError string
  | AttributeError string
  | ERROR string
  | LinAlgError
  | NonFinite

datatype warning = IgnoredInvalid "string set" | KeepingTilt string

type_synonym store = "string \<rightharpoonup> val"

text \<open>
  What a method call leaves behind: the exception it raised (if any), the mapping
  as it is after the call, and the warnings it logged.
\<close>

record outcome =
  raised :: "error option"
  store_after :: store
  warnings :: "warning list"

definition returns :: "store \<Rightarrow> outcome" where
  "returns s = \<lparr>raised = None, store_after = s, warnings = []\<rparr>"

definition raises :: "error \<Rightarrow> store \<Rightarrow> outcome" where
  "raises e s = \<lparr>raised = Some e, store_after = s, warnings = []\<rparr>"

fun truthy :: "val \<Rightarrow> bool" where
  "truthy (Num r) = (r \<noteq> 0)"
| "truthy (Bool b) = b"
| "truthy (Str s) = (s \<noteq> [])"

definition abg :: "string list" where
  "abg = [''alpha'', ''beta'', ''gamma'']"

definition field_names :: "string list" where
  "field_names = [''x0'', ''y0'', ''z0'', ''lx'', ''ly'', ''lz'',
     ''alpha'', ''beta'', ''gamma'', ''allow_tilt'', ''bx'', ''by'', ''bz'']"

text \<open>The mapping \<open>Box.__init__\<close> starts from.\<close>

definition default_input :: store where
  "default_input =
     [''x0'' \<mapsto> Num 0, ''y0'' \<mapsto> Num 0, ''z0'' \<mapsto> Num 0,
      ''lx'' \<mapsto> Num 1, ''ly'' \<mapsto> Num 1, ''lz'' \<mapsto> Num 1,
      ''alpha'' \<mapsto> Num 90, ''beta'' \<mapsto> Num 90, ''gamma'' \<mapsto> Num 90,
      ''allow_tilt'' \<mapsto> Bool False,
      ''bx'' \<mapsto> Str ''pp'', ''by'' \<mapsto> Str ''pp'', ''bz'' \<mapsto> Str ''pp'']"

text \<open>
  \<open>self.__dict__['allow_tilt'] = True\<close>. The instance dictionary is the mapping
  itself, so this is an item write through \<open>__setitem__\<close>: it raises on a missing
  key, and its own tilt check falls through (the key is no angle, the value is true).
\<close>

definition force_tilt :: "store \<Rightarrow> warning list \<Rightarrow> outcome" where
  "force_tilt s ws =
     (if s ''allow_tilt'' = None
      then \<lparr>raised = Some (KeyError ''allow_tilt''), store_after = s, warnings = ws\<rparr>
      else \<lparr>raised = None, store_after = s(''allow_tilt'' \<mapsto> Bool True), warnings = ws\<rparr>)"

text \<open>The list \<open>[self[k] != 90 for k in abg]\<close>: a missing key raises.\<close>

fun angle_tests :: "store \<Rightarrow> string list \<Rightarrow> error + bool list" where
  "angle_tests s [] = Inr []"
| "angle_tests s (k # ks) =
     (case s k of
        None \<Rightarrow> Inl (KeyError k)
      | Some v \<Rightarrow>
          (case angle_tests s ks of
             Inl e \<Rightarrow> Inl e
           | Inr bs \<Rightarrow> Inr ((v \<noteq> Num 90) # bs)))"

definition any_py :: "bool list \<Rightarrow> bool" where
  "any_py bs = list_ex (\<lambda>b. b) bs"

definition check_allow_tilt :: "store \<Rightarrow> string \<Rightarrow> val \<Rightarrow> outcome" where
  "check_allow_tilt s key v =
     (if key \<in> set abg \<and> v \<noteq> Num 90 then force_tilt s []
      else if key = ''allow_tilt'' then
        (case s ''allow_tilt'' of
           None \<Rightarrow> raises (KeyError ''allow_tilt'') s
         | Some t \<Rightarrow>
             if \<not> truthy t then
               (case angle_tests s abg of
                  Inl e \<Rightarrow> raises e s
                | Inr bs \<Rightarrow>
                    if any_py bs then force_tilt s [KeepingTilt key] else returns s)
             else returns s)
      else returns s)"

definition setitem :: "store \<Rightarrow> string \<Rightarrow> val \<Rightarrow> outcome" where
  "setitem s key v =
     (if s key = None then raises (KeyError key) s
      else check_allow_tilt (s(key \<mapsto> v)) key v)"

text \<open>
  \<open>__setattr__\<close> lets the name \<open>__dict__\<close> through to \<open>object.__setattr__\<close>, which
  accepts only a dictionary there; the values of this model are scalars, which it
  refuses with a TypeError.
\<close>

definition setattr :: "store \<Rightarrow> string \<Rightarrow> val \<Rightarrow> outcome" where
  "setattr s key v =
     (if s key = None \<and> key \<noteq> ''__dict__'' then raises (KeyError key) s
      else if key = ''__dict__'' then raises (TypeError key) s
      else check_allow_tilt (s(key \<mapsto> v)) key v)"

text \<open>
  \<open>update\<close>: the built-in \<open>dict.update\<close> writes every pair without going through
  \<open>__setitem__\<close>; the keys that were not there before are then reported and popped.
\<close>

definition dict_update :: "store \<Rightarrow> (string \<times> val) list \<Rightarrow> store" where
  "dict_update s upd = fold (\<lambda>(k, v) m. m(k \<mapsto> v)) upd s"

definition update :: "store \<Rightarrow> (string \<times> val) list \<Rightarrow> outcome" where
  "update s upd =
     (let frozen = dom s;
          s1 = dict_update s upd;
          invalid = dom s1 - frozen
      in if invalid \<noteq> {}
         then \<lparr>raised = None, store_after = s1 |` (- invalid),
               warnings = [IgnoredInvalid invalid]\<rparr>
         else returns s1)"

text \<open>\<open>Box.__init__\<close>: the defaults, then a bulk update with the caller's mapping.\<close>

definition Box_init :: "(string \<times> val) list \<Rightarrow> outcome" where
  "Box_init inputdict = update default_input inputdict"

text \<open>
  The end of \<open>Box.set_input\<close>: the converter's result \<open>conv\<close> goes in by a bulk
  update, and allow_tilt is then set by an item write when an angle is not 90.
\<close>

definition set_input_store :: "store \<Rightarrow> (string \<times> val) list \<Rightarrow> outcome" where
  "set_input_store s conv =
     (let o1 = update s conv; s1 = store_after o1
      in case angle_tests s1 abg of
           Inl e \<Rightarrow> \<lparr>raised = Some e, store_after = s1, warnings = warnings o1\<rparr>
         | Inr bs \<Rightarrow>
             if any_py bs
             then (let o2 = setitem s1 ''allow_tilt'' (Bool True)
                   in o2\<lparr>warnings := warnings o1 @ warnings o2\<rparr>)
             else o1)"

text \<open>Invariant I1 of the stored mapping: an angle other than 90 needs allow_tilt.\<close>

definition nonorth :: "store \<Rightarrow> bool" where
  "nonorth s = list_ex (\<lambda>k. case s k of None \<Rightarrow> False | Some v \<Rightarrow> v \<noteq> Num 90) abg"

definition tilt_allowed :: "store \<Rightarrow> bool" where
  "tilt_allowed s = (case s ''allow_tilt'' of None \<Rightarrow> False | Some t \<Rightarrow> truthy t)"

definition I1 :: "store \<Rightarrow> bool" where
  "I1 s = (nonorth s \<longrightarrow> tilt_allowed s)"

section \<open>The type guesser (Box._guess_type)\<close>

definition guess_type :: "real list option \<Rightarrow> error + string" where
  "guess_type argv =
     (case argv of
        None \<Rightarrow> Inl (ERROR ''Missing Box input parameters'')
      | Some a \<Rightarrow>
          if length a = 9 then
            (if a ! 0 < a ! 1 \<and> a ! 2 < a ! 3 \<and> a ! 4 < a ! 5 then Inr ''lmpdata''
             else if a ! 0 < a ! 1 \<and> a ! 3 < a ! 4 \<and> a ! 6 < a ! 7 then Inr ''lmpdump''
             else Inr ''basis'')
          else if length a = 6 then
            (if a ! 1 \<le> 1 \<and> a ! 3 \<le> 1 \<and> a ! 4 \<le> 1 then Inr ''dcd''
             else Inr ''lattice'')
          else Inl (ERROR ''Incorrect Box input parameters''))"

section \<open>Vectors and matrices (the numpy operations box.py uses)\<close>

text \<open>
  A point or a lattice vector is a triple of numbers and a 3x3 array is the triple of
  its rows. Numbers are reals: float64 rounding error and the values inf and nan are
  outside this model, and where numpy would produce inf or nan the model stops with
  \<open>NonFinite\<close>, so that nothing is proved about such a box.
\<close>

type_synonym vec3 = "real \<times> real \<times> real"
type_synonym mat3 = "vec3 \<times> vec3 \<times> vec3"

fun vadd :: "vec3 \<Rightarrow> vec3 \<Rightarrow> vec3" where
  "vadd (a, b, c) (x, y, z) = (a + x, b + y, c + z)"

fun vsub :: "vec3 \<Rightarrow> vec3 \<Rightarrow> vec3" where
  "vsub (a, b, c) (x, y, z) = (a - x, b - y, c - z)"

fun smul :: "real \<Rightarrow> vec3 \<Rightarrow> vec3" where
  "smul k (x, y, z) = (k * x, k * y, k * z)"

fun vdiv :: "vec3 \<Rightarrow> real \<Rightarrow> vec3" where
  "vdiv (x, y, z) k = (x / k, y / k, z / k)"

fun vmul :: "vec3 \<Rightarrow> vec3 \<Rightarrow> vec3" where
  "vmul (a, b, c) (x, y, z) = (a * x, b * y, c * z)"

fun vmin :: "vec3 \<Rightarrow> vec3 \<Rightarrow> vec3" where
  "vmin (a, b, c) (x, y, z) = (min a x, min b y, min c z)"

fun vmax :: "vec3 \<Rightarrow> vec3 \<Rightarrow> vec3" where
  "vmax (a, b, c) (x, y, z) = (max a x, max b y, max c z)"

fun dot :: "vec3 \<Rightarrow> vec3 \<Rightarrow> real" where
  "dot (a, b, c) (x, y, z) = a * x + b * y + c * z"

text \<open>\<open>np.cross\<close>.\<close>

fun np_cross :: "vec3 \<Rightarrow> vec3 \<Rightarrow> vec3" where
  "np_cross (a, b, c) (x, y, z) = (b * z - c * y, c * x - a * z, a * y - b * x)"

text \<open>\<open>np.linalg.norm\<close> of one row, also written \<open>np.sum(v ** 2.0, axis=1) ** 0.5\<close>.\<close>

definition norm3 :: "vec3 \<Rightarrow> real" where
  "norm3 v = sqrt (dot v v)"

text \<open>\<open>normalize\<close> on one row: a zero length is replaced by 1 before dividing.\<close>

definition normalize3 :: "vec3 \<Rightarrow> vec3" where
  "normalize3 v = (let l2 = norm3 v in vdiv v (if l2 = 0 then 1 else l2))"

fun normalize_rows :: "mat3 \<Rightarrow> mat3" where
  "normalize_rows (r0, r1, r2) = (normalize3 r0, normalize3 r1, normalize3 r2)"

text \<open>\<open>cross\<close> of box.py: the normalised cross product.\<close>

definition cross :: "vec3 \<Rightarrow> vec3 \<Rightarrow> vec3" where
  "cross v u = normalize3 (np_cross v u)"

fun row0 :: "mat3 \<Rightarrow> vec3" where "row0 (r0, r1, r2) = r0"
fun row1 :: "mat3 \<Rightarrow> vec3" where "row1 (r0, r1, r2) = r1"
fun row2 :: "mat3 \<Rightarrow> vec3" where "row2 (r0, r1, r2) = r2"

text \<open>\<open>np.dot(m, p)\<close> for a matrix and one point: the dot product with every row.\<close>

fun mat_vec :: "mat3 \<Rightarrow> vec3 \<Rightarrow> vec3" where
  "mat_vec (r0, r1, r2) p = (dot r0 p, dot r1 p, dot r2 p)"

fun row_norms :: "mat3 \<Rightarrow> vec3" where
  "row_norms (r0, r1, r2) = (norm3 r0, norm3 r1, norm3 r2)"

text \<open>\<open>np.sum(m, axis=0)\<close>: the sum of the rows.\<close>

fun sum_rows :: "mat3 \<Rightarrow> vec3" where
  "sum_rows (r0, r1, r2) = vadd (vadd r0 r1) r2"

fun det3 :: "mat3 \<Rightarrow> real" where
  "det3 ((a, b, c), (d, e, f), (g, h, i)) =
     a * (e * i - f * h) - b * (d * i - f * g) + c * (d * h - e * g)"

text \<open>\<open>np.linalg.inv\<close>: raises LinAlgError on a singular matrix.\<close>

fun inv3 :: "mat3 \<Rightarrow> error + mat3" where
  "inv3 ((a, b, c), (d, e, f), (g, h, i)) =
     (let dt = det3 ((a, b, c), (d, e, f), (g, h, i))
      in if dt = 0 then Inl LinAlgError
         else Inr (((e * i - f * h) / dt, (c * h - b * i) / dt, (b * f - c * e) / dt),
                   ((f * g - d * i) / dt, (a * i - c * g) / dt, (c * d - a * f) / dt),
                   ((d * h - e * g) / dt, (b * g - a * h) / dt, (a * e - b * d) / dt)))"

text \<open>
  \<open>np.round(x, 9)\<close>: scale by 10^9, round half to even, scale back. The model does
  this on the exact real number. The code does it in float64, which agrees up to
  float64 error as long as x * 10^9 stays below 2^53, that is for x below about 9e6;
  beyond that the code returns x moved by one unit in the last place.
\<close>

definition rint :: "real \<Rightarrow> int" where
  "rint x =
     (let f = \<lfloor>x\<rfloor>; d = x - of_int f
      in if d < 1 / 2 then f
         else if 1 / 2 < d then f + 1
         else if even f then f else f + 1)"

definition round9 :: "real \<Rightarrow> real" where
  "round9 x = of_int (rint (x * 10 ^ 9)) / 10 ^ 9"

fun round9v :: "vec3 \<Rightarrow> vec3" where
  "round9v (x, y, z) = (round9 x, round9 y, round9 z)"

fun round9m :: "mat3 \<Rightarrow> mat3" where
  "round9m (r0, r1, r2) = (round9v r0, round9v r1, round9v r2)"

definition deg2rad :: real where
  "deg2rad = pi / 180"

definition rad2deg :: real where
  "rad2deg = 180 / pi"

section \<open>The box and its derived geometry (Box.output)\<close>

text \<open>
  The thirteen fields of the input mapping with the types \<open>Box.__init__\<close> gives them.
\<close>

record box =
  x0 :: real
  y0 :: real
  z0 :: real
  lx :: real
  ly :: real
  lz :: real
  alpha :: real
  beta :: real
  gamma :: real
  allow_tilt :: bool
  bx :: string
  "by" :: string
  bz :: string

definition default_box :: box where
  "default_box = \<lparr>x0 = 0, y0 = 0, z0 = 0, lx = 1, ly = 1, lz = 1,
     alpha = 90, beta = 90, gamma = 90, allow_tilt = False,
     bx = ''pp'', by = ''pp'', bz = ''pp''\<rparr>"

text \<open>
  The mapping \<open>Box.output\<close> returns, grouped by threes: \<open>o_lo\<close> is (xlo, ylo, zlo),
  \<open>o_hi\<close> is (xhi, yhi, zhi), \<open>o_org\<close>, \<open>o_len\<close> and \<open>o_ang\<close> are the copies of
  (x0, y0, z0), (lx, ly, lz) and (alpha, beta, gamma), \<open>o_cos\<close> is
  (cos_alpha, cos_beta, cos_gamma), \<open>o_abc\<close> is (a, b, c), \<open>o_tilt\<close> is (xy, xz, yz).
  Every number has gone through \<open>np.round(_, 9)\<close>; rounding a boolean keeps its truth
  value, and the boundary strings are left as they are.
\<close>

record geom =
  o_org :: vec3
  o_len :: vec3
  o_ang :: vec3
  o_allow_tilt :: bool
  o_lo :: vec3
  o_hi :: vec3
  o_cos :: vec3
  o_abc :: vec3
  o_tilt :: vec3
  o_v :: mat3
  o_u :: mat3
  o_u_inv :: mat3
  o_bn :: mat3

definition "output" :: "box \<Rightarrow> error + geom" where
  "output bx0 =
     (let tilt = (allow_tilt bx0 \<or> alpha bx0 \<noteq> 90 \<or> beta bx0 \<noteq> 90 \<or> gamma bx0 \<noteq> 90);
          ca = cos (alpha bx0 * deg2rad);
          cb = cos (beta bx0 * deg2rad);
          cg = cos (gamma bx0 * deg2rad);
          sg2 = 1 - cg\<^sup>2;
          rad = 1 - cb\<^sup>2 - (ca - cg * cb)\<^sup>2 / (1 - cg\<^sup>2)
      in if sg2 \<le> 0 \<or> rad \<le> 0 \<or> ly bx0 = 0 then Inl NonFinite
         else
           (let a = lx bx0;
                b = ly bx0 / sqrt sg2;
                c = lz bx0 / sqrt rad;
                xy = b * cg;
                xz = c * cb;
                yz = (b * c * ca - xy * xz) / ly bx0;
                v = ((lx bx0, 0, 0), (xy, ly bx0, 0), (xz, yz, lz bx0));
                u = normalize_rows v
            in case inv3 u of
                 Inl e \<Rightarrow> Inl e
               | Inr u_inv \<Rightarrow>
                   Inr \<lparr>o_org = round9v (x0 bx0, y0 bx0, z0 bx0),
                        o_len = round9v (lx bx0, ly bx0, lz bx0),
                        o_ang = round9v (alpha bx0, beta bx0, gamma bx0),
                        o_allow_tilt = tilt,
                        o_lo = round9v (x0 bx0, y0 bx0, z0 bx0),
                        o_hi = round9v (x0 bx0 + lx bx0, y0 bx0 + ly bx0, z0 bx0 + lz bx0),
                        o_cos = round9v (ca, cb, cg),
                        o_abc = round9v (a, b, c),
                        o_tilt = round9v (xy, xz, yz),
                        o_v = round9m v,
                        o_u = round9m u,
                        o_u_inv = round9m u_inv,
                        o_bn = round9m (cross (row1 u) (row2 u),
                                        cross (row2 u) (row0 u),
                                        cross (row0 u) (row1 u))\<rparr>))"

section \<open>Converters from the external representations\<close>

text \<open>What a converter returns: the fields it sets.\<close>

record conv =
  c_lx :: real
  c_ly :: real
  c_lz :: real
  c_alpha :: real
  c_beta :: real
  c_gamma :: real

definition input_basis :: "mat3 \<Rightarrow> conv" where
  "input_basis v =
     (let u = normalize_rows v
      in \<lparr>c_lx = fst (row0 v),
          c_ly = fst (snd (row1 v)),
          c_lz = snd (snd (row2 v)),
          c_alpha = arccos (dot (row1 u) (row2 u)) * rad2deg,
          c_beta = arccos (dot (row0 u) (row2 u)) * rad2deg,
          c_gamma = arccos (dot (row0 u) (row1 u)) * rad2deg\<rparr>)"

text \<open>
  \<open>self.input.update(conv)\<close> on the typed box: the six fields are overwritten and
  nothing else is looked at (a bulk update runs no tilt check).
\<close>

definition update_conv :: "box \<Rightarrow> conv \<Rightarrow> box" where
  "update_conv b k = b\<lparr>lx := c_lx k, ly := c_ly k, lz := c_lz k,
                        alpha := c_alpha k, beta := c_beta k, gamma := c_gamma k\<rparr>"












section \<open>The round trip Lattice, Basis, Lattice\<close>






section \<open>Containment (Box.bbcheck)\<close>

record bbres =
  inbound :: "bool list"
  outbound :: "bool list"
  dist :: "real list list"

text \<open>
  One row of \<open>dist\<close>: the point's distances to the faces
  xlo, ylo, zlo, xhi, yhi, zhi.
\<close>

definition face_dist :: "geom \<Rightarrow> vec3 \<Rightarrow> real list" where
  "face_dist g p =
     (let lo = vsub (o_lo g) p;
          hi = vadd lo (sum_rows (o_v g));
          bn = o_bn g
      in [dot (smul (- 1) (row0 bn)) lo, dot (smul (- 1) (row1 bn)) lo,
          dot (smul (- 1) (row2 bn)) lo,
          dot (row0 bn) hi, dot (row1 bn) hi, dot (row2 bn) hi])"

definition bbcheck :: "box \<Rightarrow> vec3 list \<Rightarrow> error + bbres" where
  "bbcheck b pts =
     (case output b of
        Inl e \<Rightarrow> Inl e
      | Inr g \<Rightarrow>
          (let dist = map (face_dist g) pts;
               inside = map (\<lambda>d. Min (set d) \<ge> 0) dist
           in Inr \<lparr>inbound = inside, outbound = map Not inside, dist = dist\<rparr>))"

text \<open>\<open>pts[mask]\<close>: the points whose flag is set.\<close>

definition select :: "'a list \<Rightarrow> bool list \<Rightarrow> 'a list" where
  "select xs sel = map fst (filter snd (zip xs sel))"

text \<open>\<open>np.sum(mask)\<close>: how many flags are set.\<close>

definition count_true :: "bool list \<Rightarrow> nat" where
  "count_true sel = length (filter (\<lambda>b. b) sel)"

text \<open>
  The periodicity argument after \<open>flatten\<close> (a single flag is a one-element list):
  \<open>(flags * 3)[:3]\<close>.
\<close>

definition pbc3 :: "bool list \<Rightarrow> bool list" where
  "pbc3 flags = take 3 (flags @ flags @ flags)"

text \<open>\<open>(~np.array(pbc)).astype(int)\<close> and \<open>np.array(pbc).astype(int)\<close> as a vector.\<close>

definition as_int :: "bool \<Rightarrow> real" where
  "as_int f = (if f then 1 else 0)"

definition mask_not :: "bool list \<Rightarrow> vec3" where
  "mask_not p = (as_int (\<not> p ! 0), as_int (\<not> p ! 1), as_int (\<not> p ! 2))"

definition mask_of :: "bool list \<Rightarrow> vec3" where
  "mask_of p = (as_int (p ! 0), as_int (p ! 1), as_int (p ! 2))"

section \<open>Growing the box (Box.extend)\<close>

text \<open>
  \<open>extend(pts, pbc=flags)\<close> with the containment test computed inside, so that past
  the early return at least one point is outbound and the maximum is over a non-empty
  list. An empty flag list makes \<open>~np.array(pbc)\<close> fail, the array being a float
  array then.
\<close>

definition eps :: real where
  "eps = 1 / 10 ^ 7"

definition extend :: "box \<Rightarrow> vec3 list \<Rightarrow> bool list \<Rightarrow> error + box" where
  "extend b pts flags =
     (case output b of
        Inl e \<Rightarrow> Inl e
      | Inr g \<Rightarrow>
          (case bbcheck b pts of
             Inl e \<Rightarrow> Inl e
           | Inr bb \<Rightarrow>
               if count_true (inbound bb) = length pts then Inr b
               else if flags = [] then Inl (TypeError ''invert'')
               else
                 (let pbc = pbc3 flags;
                      lo0 = o_lo g;
                      outp = select pts (outbound bb);
                      lo1 = vmul (fold vmin (map (\<lambda>p. vsub p (eps, eps, eps)) outp) lo0)
                                 (mask_not pbc);
                      b1 = b\<lparr>x0 := fst lo1, y0 := fst (snd lo1), z0 := snd (snd lo1)\<rparr>;
                      shift = mat_vec (o_u g) (vsub lo1 lo0);
                      d_abc = map (\<lambda>p. mat_vec (o_u g) (vsub p lo0)) outp;
                      top = vadd (fold vmax (tl d_abc) (hd d_abc)) (eps, eps, eps);
                      len = vsub (vmax (vmul top (mask_not pbc)) (row_norms (o_v g))) shift;
                      v = (smul (fst len) (row0 (o_u g)),
                           smul (fst (snd len)) (row1 (o_u g)),
                           smul (snd (snd len)) (row2 (o_u g)))
                  in Inr (update_conv b1 (input_basis v)))))"

section \<open>Periodic wrapping (Box.wrap)\<close>

text \<open>
  The shift of one point from its row of \<open>dist\<close>: for every face the number of
  lattice vectors, zero where the distance is not negative, times the lattice vector
  of the face (v for the three lo faces, -v for the three hi faces).
\<close>

definition rep_count :: "real \<Rightarrow> real \<Rightarrow> real \<Rightarrow> real" where
  "rep_count d n f = (if d \<ge> 0 then 0 else \<bar>of_int \<lfloor>d / n\<rfloor> * f\<bar>)"

definition wrap_shift :: "geom \<Rightarrow> bool list \<Rightarrow> real list \<Rightarrow> vec3" where
  "wrap_shift g pbc d =
     (let n = row_norms (o_v g);
          ns = [fst n, fst (snd n), snd (snd n), fst n, fst (snd n), snd (snd n)];
          m = mask_of pbc;
          ms = [fst m, fst (snd m), snd (snd m), fst m, fst (snd m), snd (snd m)];
          v = o_v g;
          ws = [row0 v, row1 v, row2 v,
                smul (- 1) (row0 v), smul (- 1) (row1 v), smul (- 1) (row2 v)];
          rep = map (\<lambda>(dj, nj, mj). rep_count dj nj mj) (zip d (zip ns ms))
      in fold vadd (map (\<lambda>(r, w). smul r w) (zip rep ws)) (0, 0, 0))"

definition wrap :: "box \<Rightarrow> vec3 list \<Rightarrow> bool list \<Rightarrow> error + vec3 list" where
  "wrap b pts flags =
     (case output b of
        Inl e \<Rightarrow> Inl e
      | Inr g \<Rightarrow>
          (case bbcheck b pts of
             Inl e \<Rightarrow> Inl e
           | Inr bb \<Rightarrow>
               if count_true (inbound bb) = length pts then Inr pts
               else if flags = [] then Inl (ValueError ''broadcast'')
               else if fst (row_norms (o_v g)) = 0 \<or> fst (snd (row_norms (o_v g))) = 0
                       \<or> snd (snd (row_norms (o_v g))) = 0 then Inl NonFinite
               else Inr (map (\<lambda>(p, d). vadd p (wrap_shift g (pbc3 flags) d))
                             (zip pts (dist bb)))))"

section \<open>Periodic images (Box.ghost)\<close>

text \<open>
  The sign of one point: \<open>argmin\<close> of the two squared distances, times 2, minus 1;
  \<open>argmin\<close> takes the first of two equal values.
\<close>

definition side :: "vec3 \<Rightarrow> vec3 \<Rightarrow> real" where
  "side sh p =
     (if dot (vsub p sh) (vsub p sh) \<le> dot (vadd p sh) (vadd p sh) then - 1 else 1)"

text \<open>\<open>ref + np.outer(side, shift)\<close>, the signs being those of the diagonal shift.\<close>

definition translate :: "vec3 \<Rightarrow> vec3 \<Rightarrow> vec3 list \<Rightarrow> vec3 list" where
  "translate diag sh pts = map (\<lambda>p. vadd p (smul (side diag p) sh)) pts"

text \<open>The generator, as the list of what it yields.\<close>

definition ghost :: "box \<Rightarrow> vec3 list \<Rightarrow> bool list \<Rightarrow> error + vec3 list list" where
  "ghost b pts flags =
     (case output b of
        Inl e \<Rightarrow> Inl e
      | Inr g \<Rightarrow>
          if flags = [] then Inl (IndexError ''pbc'')
          else
            (let pbc = pbc3 flags;
                 L = vmul (o_abc g) (mask_of pbc);
                 s0 = smul (fst L) (row0 (o_u g));
                 s1 = smul (fst (snd L)) (row1 (o_u g));
                 s2 = smul (snd (snd L)) (row2 (o_u g));
                 diag = vadd (vadd s0 s1) s2
             in Inr ([translate diag diag pts]
                     @ [translate diag s0 pts, translate diag s1 pts, translate diag s2 pts]
                     @ [translate diag (vadd s0 s1) pts, translate diag (vadd s1 s2) pts,
                        translate diag (vadd s2 s0) pts])))"

section \<open>Boxes used as examples\<close>

text \<open>The cube of edge 10 at the origin.\<close>

definition box10 :: box where
  "box10 = default_box\<lparr>lx := 10, ly := 10, lz := 10\<rparr>"

text \<open>The unit cube with its low corner at x = 2.\<close>

definition box2 :: box where
  "box2 = default_box\<lparr>x0 := 2\<rparr>"

text \<open>
  A tilted box: a = b = c = 1 and the angle between a and b has cosine 3/5, so that
  the lattice vectors are (1, 0, 0), (3/5, 4/5, 0) and (0, 0, 1).
\<close>

definition gamma35 :: real where
  "gamma35 = arccos (3 / 5) * rad2deg"

definition tilt_box :: box where
  "tilt_box = default_box\<lparr>ly := 4 / 5, gamma := gamma35\<rparr>"

text \<open>
  The box that \<open>extend\<close> makes of \<open>tilt_box\<close> for the single point (-5, 2/5, 1/2)
  with no periodic axis (see \<open>extend_tilt_box\<close> below).
\<close>

definition grown :: box where
  "grown = \<lparr>x0 = - 5 - eps, y0 = 0, z0 = 0, lx = 6 + eps,
          ly = (4 + 3 / 5 * eps) * (4 / 5), lz = 1,
          alpha = 90, beta = 90, gamma = gamma35, allow_tilt = False,
          bx = ''pp'', by = ''pp'', bz = ''pp''\<rparr>"





section \<open>Properties of the input mapping\<close>

lemma dom_default_input: "dom default_input = set field_names"
  by (auto simp: default_input_def field_names_def)

lemma dict_update_dom: "dom (dict_update s upd) = dom s \<union> fst ` set upd"
  unfolding dict_update_def
  by (induction upd arbitrary: s) auto


lemma update_store:
  "store_after (update s upd) = dict_update s upd |` dom s"
proof -
  have "dict_update s upd |` (- (dom (dict_update s upd) - dom s)) = dict_update s upd |` dom s"
    by (rule ext) (auto simp: restrict_map_def domIff)
  moreover have "dom (dict_update s upd) - dom s = {} \<Longrightarrow> dict_update s upd = dict_update s upd |` dom s"
    by (rule ext) (auto simp: restrict_map_def domIff)
  ultimately show ?thesis
    by (simp add: update_def Let_def returns_def)
qed

lemma update_raised: "raised (update s upd) = None"
  by (simp add: update_def Let_def returns_def)

lemma update_dom: "dom (store_after (update s upd)) = dom s"
  by (auto simp: update_store dict_update_dom)

lemma update_known:
  assumes "fst ` set upd \<subseteq> dom s"
  shows "store_after (update s upd) = dict_update s upd"
proof -
  have d: "dom (dict_update s upd) = dom s"
    using assms by (auto simp: dict_update_dom)
  have "(dict_update s upd |` dom s) x = dict_update s upd x" for x
  proof (cases "x \<in> dom s")
    case True
    then show ?thesis by simp
  next
    case False
    then have "dict_update s upd x = None" using d by blast
    then show ?thesis using False by simp
  qed
  then show ?thesis by (simp add: update_store fun_eq_iff)
qed

lemma default_input_angles:
  "default_input ''alpha'' = Some (Num 90)"
  "default_input ''beta'' = Some (Num 90)"
  "default_input ''gamma'' = Some (Num 90)"
  "default_input ''allow_tilt'' = Some (Bool False)"
  by (simp_all add: default_input_def)

subsection \<open>What the tilt check guarantees\<close>

lemma angle_tests_total:
  "\<forall>k \<in> set ks. s k \<noteq> None \<Longrightarrow>
     angle_tests s ks = Inr (map (\<lambda>k. the (s k) \<noteq> Num 90) ks)"
  by (induction ks) auto

lemma any_angle_tests:
  assumes "\<forall>k \<in> set abg. s k \<noteq> None"
  shows "\<exists>bs. angle_tests s abg = Inr bs \<and> any_py bs = nonorth s"
proof -
  have "(the (s k) \<noteq> Num 90) = (case s k of None \<Rightarrow> False | Some v \<Rightarrow> v \<noteq> Num 90)"
    if "k \<in> set abg" for k
    using assms that by (cases "s k") auto
  then have "any_py (map (\<lambda>k. the (s k) \<noteq> Num 90) abg) = nonorth s"
    by (simp add: any_py_def nonorth_def list_ex_iff)
  then show ?thesis using angle_tests_total [OF assms] by simp
qed

lemma abg_fields: "set abg \<subseteq> set field_names" "''allow_tilt'' \<in> set field_names"
  "''allow_tilt'' \<notin> set abg"
  by (simp_all add: abg_def field_names_def)

lemma force_tilt_ok:
  assumes "s ''allow_tilt'' \<noteq> None"
  shows "raised (force_tilt s ws) = None \<and> I1 (store_after (force_tilt s ws)) \<and>
    dom (store_after (force_tilt s ws)) = dom s"
  using assms by (auto simp: force_tilt_def I1_def tilt_allowed_def)

text \<open>
  What the tilt check does give: on a mapping with the thirteen fields it never raises
  and keeps the fields; after a write of allow_tilt, or of an angle with a value other
  than 90, invariant I1 holds; after any other write I1 holds if it held for the
  mapping as written.
\<close>

lemma check_allow_tilt_I1:
  assumes d: "dom s = set field_names"
    and w: "s key = Some v"
    and h: "key = ''allow_tilt'' \<or> (key \<in> set abg \<and> v \<noteq> Num 90) \<or> I1 s"
  shows "raised (check_allow_tilt s key v) = None \<and>
         dom (store_after (check_allow_tilt s key v)) = set field_names \<and>
         I1 (store_after (check_allow_tilt s key v))"
proof -
  have at: "s ''allow_tilt'' \<noteq> None"
    using d abg_fields(2) by (metis domIff)
  have ang: "\<forall>k \<in> set abg. s k \<noteq> None"
    using d abg_fields(1) by (metis domIff subsetD)
  obtain bs where bs: "angle_tests s abg = Inr bs" "any_py bs = nonorth s"
    using any_angle_tests [OF ang] by blast
  show ?thesis
  proof (cases "key \<in> set abg \<and> v \<noteq> Num 90")
    case True
    then show ?thesis
      using force_tilt_ok [of s "[]", OF at] d by (simp add: check_allow_tilt_def)
  next
    case False
    note nf = False
    show ?thesis
    proof (cases "key = ''allow_tilt''")
      case True
      then have t: "s ''allow_tilt'' = Some v" using w by simp
      show ?thesis
      proof (cases "\<not> truthy v \<and> nonorth s")
        case True
        then show ?thesis
          using force_tilt_ok [of s "[KeepingTilt key]", OF at] d \<open>key = ''allow_tilt''\<close> t bs
          by (simp add: check_allow_tilt_def abg_fields(3))
      next
        case False
        then have "I1 s" using t by (auto simp: I1_def tilt_allowed_def)
        then show ?thesis
          using False d \<open>key = ''allow_tilt''\<close> t bs
          by (auto simp: check_allow_tilt_def returns_def abg_fields(3))
      qed
    next
      case False
      then have "I1 s" using h nf by blast
      then show ?thesis
        using False nf d by (auto simp: check_allow_tilt_def returns_def)
    qed
  qed
qed

lemma setitem_I1:
  assumes d: "dom s = set field_names"
    and k: "key \<in> set field_names"
    and h: "key = ''allow_tilt'' \<or> (key \<in> set abg \<and> v \<noteq> Num 90) \<or> I1 (s(key \<mapsto> v))"
  shows "raised (setitem s key v) = None \<and>
         dom (store_after (setitem s key v)) = set field_names \<and>
         I1 (store_after (setitem s key v))"
proof -
  obtain y where y: "s key = Some y" using d k by (metis domIff not_Some_eq)
  have d': "dom (s(key \<mapsto> v)) = set field_names" using d k by auto
  show ?thesis
    using check_allow_tilt_I1 [OF d', of key v] h
    by (simp add: setitem_def y)
qed

lemma setattr_known:
  assumes d: "dom s = set field_names"
    and k: "key \<in> set field_names"
  shows "setattr s key v = setitem s key v"
proof -
  have "key \<noteq> ''__dict__''" using k by (auto simp: field_names_def)
  moreover obtain y where "s key = Some y" using d k by (metis domIff not_Some_eq)
  ultimately show ?thesis by (simp add: setattr_def setitem_def)
qed


text \<open>The ingestion operation repairs the flag after its bulk update.\<close>

lemma set_input_store_I1:
  assumes d: "dom s = set field_names"
  shows "raised (set_input_store s conv) = None \<and>
         dom (store_after (set_input_store s conv)) = set field_names \<and>
         I1 (store_after (set_input_store s conv))"
proof -
  let ?s1 = "store_after (update s conv)"
  have d1: "dom ?s1 = set field_names" using d by (simp add: update_dom)
  have ang: "\<forall>k \<in> set abg. ?s1 k \<noteq> None"
    using d1 abg_fields(1) by (metis domIff subsetD)
  obtain bs where bs: "angle_tests ?s1 abg = Inr bs" "any_py bs = nonorth ?s1"
    using any_angle_tests [OF ang] by blast
  show ?thesis
  proof (cases "nonorth ?s1")
    case True
    have "raised (setitem ?s1 ''allow_tilt'' (Bool True)) = None \<and>
         dom (store_after (setitem ?s1 ''allow_tilt'' (Bool True))) = set field_names \<and>
         I1 (store_after (setitem ?s1 ''allow_tilt'' (Bool True)))"
      by (rule setitem_I1 [OF d1 abg_fields(2)]) simp
    then show ?thesis
      using True bs by (simp add: set_input_store_def Let_def)
  next
    case False
    then have "I1 ?s1" by (simp add: I1_def)
    then show ?thesis
      using False bs d1 by (simp add: set_input_store_def Let_def update_raised)
  qed
qed

subsection \<open>C9: single writes are strict, bulk updates are lenient\<close>



subsection \<open>C2: the tilt invariant and the bulk update\<close>

text \<open>
  Claim C2 at the input \<open>{'alpha': 60, 'allow_tilt': False}\<close>, given to a bulk update of
  the default mapping, and at \<open>Box({'alpha': 60})\<close>: the update is accepted, alpha is
  stored as 60 and allow_tilt stays false: an angle is not 90 and tilt is not allowed,
  which is what invariant I1 excludes.
\<close>

theorem bulk_update_leaves_tilt_flag_false:
  "raised (update default_input [(''alpha'', Num 60), (''allow_tilt'', Bool False)]) = None \<and>
   store_after (update default_input [(''alpha'', Num 60), (''allow_tilt'', Bool False)]) ''alpha''
     = Some (Num 60) \<and>
   store_after (update default_input [(''alpha'', Num 60), (''allow_tilt'', Bool False)]) ''allow_tilt''
     = Some (Bool False) \<and>
   nonorth (store_after (update default_input [(''alpha'', Num 60), (''allow_tilt'', Bool False)])) \<and>
   \<not> tilt_allowed
       (store_after (update default_input [(''alpha'', Num 60), (''allow_tilt'', Bool False)])) \<and>
   raised (Box_init [(''alpha'', Num 60)]) = None \<and>
   store_after (Box_init [(''alpha'', Num 60)]) ''alpha'' = Some (Num 60) \<and>
   store_after (Box_init [(''alpha'', Num 60)]) ''allow_tilt'' = Some (Bool False) \<and>
   nonorth (store_after (Box_init [(''alpha'', Num 60)])) \<and>
   \<not> tilt_allowed (store_after (Box_init [(''alpha'', Num 60)]))"
proof -
  have k1: "fst ` set [(''alpha'', Num 60), (''allow_tilt'', Bool False)] \<subseteq> dom default_input"
    by (simp add: dom_default_input field_names_def)
  have k2: "fst ` set [(''alpha'', Num 60)] \<subseteq> dom default_input"
    by (simp add: dom_default_input field_names_def)
  have s1: "store_after (update default_input [(''alpha'', Num 60), (''allow_tilt'', Bool False)])
      = default_input(''alpha'' \<mapsto> Num 60, ''allow_tilt'' \<mapsto> Bool False)"
    by (simp add: update_known [OF k1] dict_update_def)
  have s2: "store_after (Box_init [(''alpha'', Num 60)]) = default_input(''alpha'' \<mapsto> Num 60)"
    by (simp add: Box_init_def update_known [OF k2] dict_update_def)
  show ?thesis
    unfolding s1 s2
    by (simp add: Box_init_def update_raised nonorth_def tilt_allowed_def abg_def
        default_input_angles)
qed

section \<open>Properties of the type guesser\<close>

text \<open>
  Claim C3. Without an array the guesser raises the missing-parameters error. On nine
  numbers it answers lmpdata when a0 < a1, a2 < a3 and a4 < a5, else lmpdump when
  a0 < a1, a3 < a4 and a6 < a7, else basis. On six numbers it answers dcd when
  b1, b3 and b4 are at most 1, else lattice. On every other length it raises the
  incorrect-parameters error.
\<close>

theorem guess_type_classifies:
  "guess_type None = Inl (ERROR ''Missing Box input parameters'') \<and>
   guess_type (Some [a0, a1, a2, a3, a4, a5, a6, a7, a8]) =
      Inr (if a0 < a1 \<and> a2 < a3 \<and> a4 < a5 then ''lmpdata''
           else if a0 < a1 \<and> a3 < a4 \<and> a6 < a7 then ''lmpdump''
           else ''basis'') \<and>
   guess_type (Some [b0, b1, b2, b3, b4, b5]) =
      Inr (if b1 \<le> 1 \<and> b3 \<le> 1 \<and> b4 \<le> 1 then ''dcd'' else ''lattice'') \<and>
   (length a \<noteq> 9 \<and> length a \<noteq> 6 \<longrightarrow>
      guess_type (Some a) = Inl (ERROR ''Incorrect Box input parameters''))"
  by (auto simp: guess_type_def)

theorem guess_type_classifies_witness:
  "guess_type (Some [0, 10, 0, 10, 0, 10, 0, 0, 0]) = Inr ''lmpdata'' \<and>
   guess_type (Some [0, 10, 0, 0, 10, 0, 0, 10, 0]) = Inr ''lmpdump'' \<and>
   guess_type (Some [10, 0, 0, 0, 10, 0, 0, 0, 10]) = Inr ''basis'' \<and>
   guess_type (Some [10, 0.5, 10, 0.3, 0.2, 10]) = Inr ''dcd'' \<and>
   guess_type (Some [10, 10, 10, 90, 90, 90]) = Inr ''lattice'' \<and>
   length [1, 2, 3 :: real] \<noteq> 9 \<and> length [1, 2, 3 :: real] \<noteq> 6 \<and>
   guess_type (Some [1, 2, 3]) = Inl (ERROR ''Incorrect Box input parameters'')"
  using guess_type_classifies [of 0 10 0 10 0 10 0 0 0 10 "0.5" 10 "0.3" "0.2" 10 "[1, 2, 3]"]
    guess_type_classifies [of 0 10 0 0 10 0 0 10 0 10 10 10 90 90 90 "[1, 2, 3]"]
    guess_type_classifies [of 10 0 0 0 10 0 0 0 10 10 10 10 90 90 90 "[1, 2, 3]"]
  by simp

section \<open>Evaluating the derived geometry\<close>

lemma cos90: "cos (90 * deg2rad) = 0"
  by (simp add: deg2rad_def)

lemma rint_of_int: "rint (of_int k) = k"
  by (simp add: rint_def)

lemma round9_dec: "round9 (of_int k / 10 ^ 9) = of_int k / 10 ^ 9"
proof -
  have "real_of_int k / 10 ^ 9 * 10 ^ 9 = of_int k" by simp
  then show ?thesis unfolding round9_def by (simp only: rint_of_int)
qed

lemma round9_int: "round9 (of_int k) = of_int k"
proof -
  have "round9 (of_int (k * 10 ^ 9) / 10 ^ 9) = of_int (k * 10 ^ 9) / 10 ^ 9"
    by (rule round9_dec)
  then show ?thesis by simp
qed

lemma round9_ratio: "x * 10 ^ 9 = of_int k \<Longrightarrow> round9 x = x"
proof -
  assume a: "x * 10 ^ 9 = of_int k"
  then have x: "x = of_int k / 10 ^ 9" by simp
  show ?thesis unfolding x by (rule round9_dec)
qed

lemma round9_0: "round9 0 = 0" using round9_int [of 0] by simp
lemma round9_1: "round9 1 = 1" using round9_int [of 1] by simp
lemma r2: "round9 2 = 2" using round9_int [of 2] by simp
lemma r3: "round9 3 = 3" using round9_int [of 3] by simp
lemma r10: "round9 10 = 10" using round9_int [of 10] by simp
lemma r90: "round9 90 = 90" using round9_int [of 90] by simp
lemma r35: "round9 (3 / 5) = 3 / 5" by (rule round9_ratio [of _ 600000000]) simp
lemma r45: "round9 (4 / 5) = 4 / 5" by (rule round9_ratio [of _ 800000000]) simp
lemma rm35: "round9 (- (3 / 5)) = - (3 / 5)" by (rule round9_ratio [of _ "- 600000000"]) simp
lemma rm34: "round9 (- (3 / 4)) = - (3 / 4)" by (rule round9_ratio [of _ "- 750000000"]) simp
lemma r54: "round9 (5 / 4) = 5 / 4" by (rule round9_ratio [of _ 1250000000]) simp

lemma norm3_axis:
  "norm3 (x, 0, 0) = \<bar>x\<bar>" "norm3 (0, x, 0) = \<bar>x\<bar>" "norm3 (0, 0, x) = \<bar>x\<bar>"
  by (simp_all add: norm3_def)

lemma normalize3_axis:
  "0 < x \<Longrightarrow> normalize3 (x, 0, 0) = (1, 0, 0)"
  "0 < x \<Longrightarrow> normalize3 (0, x, 0) = (0, 1, 0)"
  "0 < x \<Longrightarrow> normalize3 (0, 0, x) = (0, 0, 1)"
  by (simp_all add: normalize3_def norm3_axis Let_def)

lemma inv3_ident:
  "inv3 ((1, 0, 0), (0, 1, 0), (0, 0, 1)) = Inr ((1, 0, 0), (0, 1, 0), (0, 0, 1))"
  by (simp add: Let_def)

lemma bn_ident:
  "cross (0, 1, 0) (0, 0, 1) = (1, 0, 0)"
  "cross (0, 0, 1) (1, 0, 0) = (0, 1, 0)"
  "cross (1, 0, 0) (0, 1, 0) = (0, 0, 1)"
  by (simp_all add: cross_def normalize3_axis)

text \<open>The geometry of an orthogonal box with positive edges.\<close>

lemma output_orthogonal:
  assumes "alpha b = 90" "beta b = 90" "gamma b = 90" "0 < lx b" "0 < ly b" "0 < lz b"
  shows "output b = Inr \<lparr>o_org = round9v (x0 b, y0 b, z0 b),
                        o_len = round9v (lx b, ly b, lz b),
                        o_ang = (90, 90, 90),
                        o_allow_tilt = allow_tilt b,
                        o_lo = round9v (x0 b, y0 b, z0 b),
                        o_hi = round9v (x0 b + lx b, y0 b + ly b, z0 b + lz b),
                        o_cos = (0, 0, 0),
                        o_abc = round9v (lx b, ly b, lz b),
                        o_tilt = (0, 0, 0),
                        o_v = ((round9 (lx b), 0, 0), (0, round9 (ly b), 0), (0, 0, round9 (lz b))),
                        o_u = ((1, 0, 0), (0, 1, 0), (0, 0, 1)),
                        o_u_inv = ((1, 0, 0), (0, 1, 0), (0, 0, 1)),
                        o_bn = ((1, 0, 0), (0, 1, 0), (0, 0, 1))\<rparr>"
  using assms
  by (simp add: output_def cos90 Let_def normalize3_axis inv3_ident bn_ident round9_0 round9_1 r90
      del: inv3.simps)

lemma output_default_box:
  "output default_box = Inr \<lparr>o_org = (0, 0, 0), o_len = (1, 1, 1), o_ang = (90, 90, 90),
       o_allow_tilt = False, o_lo = (0, 0, 0), o_hi = (1, 1, 1), o_cos = (0, 0, 0),
       o_abc = (1, 1, 1), o_tilt = (0, 0, 0),
       o_v = ((1, 0, 0), (0, 1, 0), (0, 0, 1)),
       o_u = ((1, 0, 0), (0, 1, 0), (0, 0, 1)),
       o_u_inv = ((1, 0, 0), (0, 1, 0), (0, 0, 1)),
       o_bn = ((1, 0, 0), (0, 1, 0), (0, 0, 1))\<rparr>"
  by (subst output_orthogonal) (simp_all add: default_box_def round9_0 round9_1)

lemma output_box10:
  "output box10 = Inr \<lparr>o_org = (0, 0, 0), o_len = (10, 10, 10), o_ang = (90, 90, 90),
       o_allow_tilt = False, o_lo = (0, 0, 0), o_hi = (10, 10, 10), o_cos = (0, 0, 0),
       o_abc = (10, 10, 10), o_tilt = (0, 0, 0),
       o_v = ((10, 0, 0), (0, 10, 0), (0, 0, 10)),
       o_u = ((1, 0, 0), (0, 1, 0), (0, 0, 1)),
       o_u_inv = ((1, 0, 0), (0, 1, 0), (0, 0, 1)),
       o_bn = ((1, 0, 0), (0, 1, 0), (0, 0, 1))\<rparr>"
  by (subst output_orthogonal) (simp_all add: box10_def default_box_def round9_0 r10)

lemma output_box2:
  "output box2 = Inr \<lparr>o_org = (2, 0, 0), o_len = (1, 1, 1), o_ang = (90, 90, 90),
       o_allow_tilt = False, o_lo = (2, 0, 0), o_hi = (3, 1, 1), o_cos = (0, 0, 0),
       o_abc = (1, 1, 1), o_tilt = (0, 0, 0),
       o_v = ((1, 0, 0), (0, 1, 0), (0, 0, 1)),
       o_u = ((1, 0, 0), (0, 1, 0), (0, 0, 1)),
       o_u_inv = ((1, 0, 0), (0, 1, 0), (0, 0, 1)),
       o_bn = ((1, 0, 0), (0, 1, 0), (0, 0, 1))\<rparr>"
  by (subst output_orthogonal) (simp_all add: box2_def default_box_def round9_0 round9_1 r2 r3)

section \<open>Properties of the containment test\<close>

lemma face_dist_length: "length (face_dist g p) = 6"
  by (simp add: face_dist_def Let_def)

text \<open>
  Claim C4. Whenever the geometry of the box can be derived, the containment test
  returns, and for every point the row of \<open>dist\<close> holds its six face distances, the
  point is inbound exactly when the least of the six is at least 0, which is when all
  six are at least 0 (so a point with one distance 0 and the others not negative is
  inbound), and it is outbound exactly when it is not inbound.
\<close>

theorem bbcheck_inbound_iff_min_nonneg:
  assumes "output b = Inr g"
  shows "\<exists>r. bbcheck b pts = Inr r \<and>
           length (inbound r) = length pts \<and> length (outbound r) = length pts \<and>
           dist r = map (face_dist g) pts \<and>
           (\<forall>i < length pts.
              length (dist r ! i) = 6 \<and>
              (inbound r ! i \<longleftrightarrow> 0 \<le> Min (set (dist r ! i))) \<and>
              (inbound r ! i \<longleftrightarrow> (\<forall>d \<in> set (dist r ! i). 0 \<le> d)) \<and>
              (outbound r ! i \<longleftrightarrow> \<not> inbound r ! i))"
proof -
  let ?r = "\<lparr>inbound = map (\<lambda>d. Min (set d) \<ge> 0) (map (face_dist g) pts),
             outbound = map Not (map (\<lambda>d. Min (set d) \<ge> 0) (map (face_dist g) pts)),
             dist = map (face_dist g) pts\<rparr>"
  have r: "bbcheck b pts = Inr ?r"
    by (simp add: bbcheck_def assms Let_def)
  have ne: "set (face_dist g p) \<noteq> {}" for p
    using face_dist_length [of g p] by auto
  have "\<forall>i < length pts.
              length (dist ?r ! i) = 6 \<and>
              (inbound ?r ! i \<longleftrightarrow> 0 \<le> Min (set (dist ?r ! i))) \<and>
              (inbound ?r ! i \<longleftrightarrow> (\<forall>d \<in> set (dist ?r ! i). 0 \<le> d)) \<and>
              (outbound ?r ! i \<longleftrightarrow> \<not> inbound ?r ! i)"
    using ne by (simp add: face_dist_length)
  then show ?thesis using r by simp
qed

text \<open>
  On the unit cube the point (0, 1/2, 1/2) lies on the face xlo: its distances are
  0, 1/2, 1/2, 1, 1/2, 1/2 and it is inbound; the point (-1/4, 1/2, 1/2) is outbound.
\<close>

theorem bbcheck_inbound_iff_min_nonneg_witness:
  "output default_box = Inr \<lparr>o_org = (0, 0, 0), o_len = (1, 1, 1), o_ang = (90, 90, 90),
       o_allow_tilt = False, o_lo = (0, 0, 0), o_hi = (1, 1, 1), o_cos = (0, 0, 0),
       o_abc = (1, 1, 1), o_tilt = (0, 0, 0),
       o_v = ((1, 0, 0), (0, 1, 0), (0, 0, 1)),
       o_u = ((1, 0, 0), (0, 1, 0), (0, 0, 1)),
       o_u_inv = ((1, 0, 0), (0, 1, 0), (0, 0, 1)),
       o_bn = ((1, 0, 0), (0, 1, 0), (0, 0, 1))\<rparr> \<and>
   (\<exists>r. bbcheck default_box [(0, 1 / 2, 1 / 2), (- 1 / 4, 1 / 2, 1 / 2)] = Inr r \<and>
        dist r = [[0, 1 / 2, 1 / 2, 1, 1 / 2, 1 / 2],
                  [- 1 / 4, 1 / 2, 1 / 2, 5 / 4, 1 / 2, 1 / 2]] \<and>
        inbound r = [True, False] \<and> outbound r = [False, True])"
proof -
  note g = output_default_box
  obtain r where r: "bbcheck default_box [(0, 1 / 2, 1 / 2), (- 1 / 4, 1 / 2, 1 / 2)] = Inr r"
    and l: "length (inbound r) = 2" "length (outbound r) = 2"
    and d: "dist r = map (face_dist \<lparr>o_org = (0, 0, 0), o_len = (1, 1, 1), o_ang = (90, 90, 90),
       o_allow_tilt = False, o_lo = (0, 0, 0), o_hi = (1, 1, 1), o_cos = (0, 0, 0),
       o_abc = (1, 1, 1), o_tilt = (0, 0, 0),
       o_v = ((1, 0, 0), (0, 1, 0), (0, 0, 1)),
       o_u = ((1, 0, 0), (0, 1, 0), (0, 0, 1)),
       o_u_inv = ((1, 0, 0), (0, 1, 0), (0, 0, 1)),
       o_bn = ((1, 0, 0), (0, 1, 0), (0, 0, 1))\<rparr>) [(0, 1 / 2, 1 / 2), (- 1 / 4, 1 / 2, 1 / 2)]"
    and i: "\<forall>i < 2. (inbound r ! i \<longleftrightarrow> 0 \<le> Min (set (dist r ! i))) \<and>
              (outbound r ! i \<longleftrightarrow> \<not> inbound r ! i)"
    using bbcheck_inbound_iff_min_nonneg [OF g, of "[(0, 1 / 2, 1 / 2), (- 1 / 4, 1 / 2, 1 / 2)]"]
    by auto
  have d': "dist r = [[0, 1 / 2, 1 / 2, 1, 1 / 2, 1 / 2],
                      [- 1 / 4, 1 / 2, 1 / 2, 5 / 4, 1 / 2, 1 / 2]]"
    by (simp add: d face_dist_def Let_def)
  have i0: "inbound r ! 0" "\<not> inbound r ! 1" "\<not> outbound r ! 0" "outbound r ! 1"
    using i by (simp_all add: d')
  have "inbound r = [True, False]"
    using l(1) i0(1,2) by (cases "inbound r"; simp; cases "tl (inbound r)"; auto)
  moreover have "outbound r = [False, True]"
    using l(2) i0(3,4) by (cases "outbound r"; simp; cases "tl (outbound r)"; auto)
  ultimately show ?thesis using g r d' by simp
qed

section \<open>Properties of the periodic wrap\<close>

lemma bbcheck_box10_out:
  "bbcheck box10 [(11, 5, 5)] =
     Inr \<lparr>inbound = [False], outbound = [True], dist = [[11, 5, 5, - 1, 5, 5]]\<rparr>"
  by (simp add: bbcheck_def output_box10 face_dist_def Let_def)

lemma bbcheck_box10_in:
  "bbcheck box10 [(1, 5, 5)] =
     Inr \<lparr>inbound = [True], outbound = [False], dist = [[1, 5, 5, 9, 5, 5]]\<rparr>"
  by (simp add: bbcheck_def output_box10 face_dist_def Let_def)

lemma wrap_box10: "wrap box10 [(11, 5, 5)] [True] = Inr [(1, 5, 5)]"
  by (simp add: wrap_def output_box10 bbcheck_box10_out count_true_def norm3_axis
      wrap_shift_def Let_def pbc3_def mask_of_def as_int_def rep_count_def)

lemma count_true_all:
  "count_true bs = length bs \<longleftrightarrow> (\<forall>x \<in> set bs. x)"
  unfolding count_true_def
  by (metis filter_True length_filter_less less_irrefl filter_id_conv)

lemma wrap_noop:
  assumes "bbcheck b pts = Inr bb" "\<forall>x \<in> set (outbound bb). \<not> x"
  shows "wrap b pts flags = Inr pts"
proof -
  obtain g where g: "output b = Inr g"
    using assms(1) by (auto simp: bbcheck_def split: sum.splits)
  have ib: "inbound bb = map (\<lambda>d. Min (set d) \<ge> 0) (map (face_dist g) pts)"
    and ob: "outbound bb = map Not (inbound bb)"
    using assms(1) g by (auto simp: bbcheck_def Let_def)
  have "\<forall>x \<in> set (inbound bb). x" using assms(2) ob by auto
  moreover have "length (inbound bb) = length pts" using ib by simp
  ultimately have "count_true (inbound bb) = length pts"
    using count_true_all by metis
  then show ?thesis by (simp add: wrap_def g assms(1))
qed

text \<open>
  Claim C5. In the fully periodic cube of edge 10 at the origin the point (11, 5, 5)
  is wrapped to (1, 5, 5), which the containment test classifies inbound; and for
  every box, when the containment test finds no outbound point, wrap returns the
  points it was given. (The function returns its result as a value; the points passed
  in are never written to.)
\<close>

theorem wrap_example_and_noop:
  "wrap box10 [(11, 5, 5)] [True] = Inr [(1, 5, 5)] \<and>
   bbcheck box10 [(1, 5, 5)] =
     Inr \<lparr>inbound = [True], outbound = [False], dist = [[1, 5, 5, 9, 5, 5]]\<rparr> \<and>
   (bbcheck b pts = Inr bb \<and> (\<forall>x \<in> set (outbound bb). \<not> x) \<longrightarrow>
      wrap b pts flags = Inr pts)"
  using wrap_box10 bbcheck_box10_in wrap_noop by blast

theorem wrap_example_and_noop_witness:
  "bbcheck box10 [(1, 5, 5)] =
     Inr \<lparr>inbound = [True], outbound = [False], dist = [[1, 5, 5, 9, 5, 5]]\<rparr> \<and>
   False \<notin> set (map Not [False]) \<and>
   wrap box10 [(1, 5, 5)] [True] = Inr [(1, 5, 5)]"
  using wrap_example_and_noop [of box10 "[(1, 5, 5)]"
      "\<lparr>inbound = [True], outbound = [False], dist = [[1, 5, 5, 9, 5, 5]]\<rparr>" "[True]"]
  by simp

section \<open>Properties of the ghost images\<close>

lemma side_cases: "side sh p = - 1 \<or> side sh p = 1"
  by (simp add: side_def)

lemma side_nearest:
  "dot (vadd p (smul (side sh p) sh)) (vadd p (smul (side sh p) sh))
     = min (dot (vsub p sh) (vsub p sh)) (dot (vadd p sh) (vadd p sh))"
proof -
  obtain a b c where p: "p = (a, b, c)" by (cases p)
  obtain x y z where s: "sh = (x, y, z)" by (cases sh)
  show ?thesis
    by (simp add: p s side_def min_def)
qed

text \<open>
  Claim C6. With all three axes periodic (the flag True, or three flags True) and the
  geometry of the box derived, the generator yields seven point sets, each as long as
  the input: first the copy shifted by the diagonal a*u0 + b*u1 + c*u2, then the copies
  shifted along a, b and c alone, then the copies shifted along the pairs (a, b),
  (b, c) and (c, a). Every copy moves a point by its own sign times the shift; the sign
  is -1 or 1 and is the one that brings the point's diagonal image nearer the origin.
  The sequence is a function of the box, the points and the flags alone.
\<close>

theorem ghost_seven_copies:
  assumes "output b = Inr g" "flags = [True] \<or> flags = [True, True, True]"
  shows "\<exists>gs. ghost b pts flags = Inr gs \<and> length gs = 7 \<and>
           (\<forall>c \<in> set gs. length c = length pts) \<and>
           (let sa = smul (fst (o_abc g)) (row0 (o_u g));
                sb = smul (fst (snd (o_abc g))) (row1 (o_u g));
                sc = smul (snd (snd (o_abc g))) (row2 (o_u g));
                diag = vadd (vadd sa sb) sc;
                copy = (\<lambda>sh. map (\<lambda>p. vadd p (smul (side diag p) sh)) pts)
            in gs = [copy diag, copy sa, copy sb, copy sc,
                     copy (vadd sa sb), copy (vadd sb sc), copy (vadd sc sa)] \<and>
               (\<forall>p \<in> set pts.
                  (side diag p = - 1 \<or> side diag p = 1) \<and>
                  dot (vadd p (smul (side diag p) diag)) (vadd p (smul (side diag p) diag))
                    = min (dot (vsub p diag) (vsub p diag)) (dot (vadd p diag) (vadd p diag))))"
proof -
  have m: "mask_of (pbc3 flags) = (1, 1, 1)"
    using assms(2) by (auto simp: mask_of_def pbc3_def as_int_def)
  have L: "vmul (o_abc g) (1, 1, 1) = o_abc g"
    by (cases "o_abc g") simp
  have ne: "flags \<noteq> []" using assms(2) by auto
  show ?thesis
    using ne side_cases side_nearest
    by (simp add: ghost_def assms(1) Let_def m L translate_def)
qed

text \<open>
  On the unit cube, with the points (1/4, 1/4, 1/4) and (-1/2, -1/2, 0): the first is
  nearer its image under -(1, 1, 1), the second nearer its image under +(1, 1, 1).
\<close>

theorem ghost_seven_copies_witness:
  "output default_box = Inr \<lparr>o_org = (0, 0, 0), o_len = (1, 1, 1), o_ang = (90, 90, 90),
       o_allow_tilt = False, o_lo = (0, 0, 0), o_hi = (1, 1, 1), o_cos = (0, 0, 0),
       o_abc = (1, 1, 1), o_tilt = (0, 0, 0),
       o_v = ((1, 0, 0), (0, 1, 0), (0, 0, 1)),
       o_u = ((1, 0, 0), (0, 1, 0), (0, 0, 1)),
       o_u_inv = ((1, 0, 0), (0, 1, 0), (0, 0, 1)),
       o_bn = ((1, 0, 0), (0, 1, 0), (0, 0, 1))\<rparr> \<and>
   ghost default_box [(1 / 4, 1 / 4, 1 / 4), (- 1 / 2, - 1 / 2, 0)] [True] =
     Inr [[(- 3 / 4, - 3 / 4, - 3 / 4), (1 / 2, 1 / 2, 1)],
          [(- 3 / 4, 1 / 4, 1 / 4), (1 / 2, - 1 / 2, 0)],
          [(1 / 4, - 3 / 4, 1 / 4), (- 1 / 2, 1 / 2, 0)],
          [(1 / 4, 1 / 4, - 3 / 4), (- 1 / 2, - 1 / 2, 1)],
          [(- 3 / 4, - 3 / 4, 1 / 4), (1 / 2, 1 / 2, 0)],
          [(1 / 4, - 3 / 4, - 3 / 4), (- 1 / 2, 1 / 2, 1)],
          [(- 3 / 4, 1 / 4, - 3 / 4), (1 / 2, - 1 / 2, 1)]]"
  using ghost_seven_copies [OF output_default_box, of "[True]"
      "[(1 / 4, 1 / 4, 1 / 4), (- 1 / 2, - 1 / 2, 0)]"] output_default_box
  by (auto simp: Let_def side_def)

section \<open>The geometry of a tilted box\<close>

lemma cos_gamma35: "cos (gamma35 * deg2rad) = 3 / 5"
  by (simp add: gamma35_def rad2deg_def deg2rad_def)

lemma gamma35_ne_90: "gamma35 \<noteq> 90"
proof
  assume "gamma35 = 90"
  then have "cos (gamma35 * deg2rad) = cos (90 * deg2rad)" by simp
  then show False by (simp add: cos_gamma35 cos90)
qed

lemma sqrt_16_25: "sqrt (16 / 25) = 4 / 5"
proof -
  have "sqrt ((4 / 5)\<^sup>2) = 4 / 5" by simp
  then show ?thesis by (simp add: power2_eq_square)
qed

lemma norm3_345: "norm3 (3 / 5, 4 / 5, 0) = 1"
proof -
  have "dot (3 / 5, 4 / 5, 0) (3 / 5, 4 / 5, 0) = 1" by simp
  then show ?thesis by (simp only: norm3_def real_sqrt_one)
qed

lemma norm3_435: "norm3 (4 / 5, - (3 / 5), 0) = 1"
proof -
  have "dot (4 / 5, - (3 / 5), 0) (4 / 5, - (3 / 5), 0) = 1" by simp
  then show ?thesis by (simp only: norm3_def real_sqrt_one)
qed

lemma norm3_smul: "norm3 (smul k v) = \<bar>k\<bar> * norm3 v"
proof -
  obtain x y z where v: "v = (x, y, z)" by (cases v)
  have "dot (smul k v) (smul k v) = k\<^sup>2 * dot v v"
    by (simp add: v power2_eq_square algebra_simps)
  then show ?thesis
    by (simp add: norm3_def real_sqrt_mult)
qed

lemma norm3_zero: "norm3 v = 0 \<Longrightarrow> v = (0, 0, 0)"
  by (cases v) (simp add: norm3_def add_nonneg_eq_0_iff)

lemma vdiv_smul: "k \<noteq> 0 \<Longrightarrow> vdiv (smul k v) (k * n) = vdiv v n"
  by (cases v) simp

lemma normalize3_smul:
  assumes "0 < k"
  shows "normalize3 (smul k v) = normalize3 v"
proof (cases "norm3 v = 0")
  case True
  then have "v = (0, 0, 0)" by (rule norm3_zero)
  then show ?thesis by simp
next
  case False
  have n: "norm3 (smul k v) = k * norm3 v"
    using assms by (simp add: norm3_smul)
  have "normalize3 (smul k v) = vdiv (smul k v) (k * norm3 v)"
    using False assms by (simp add: normalize3_def n Let_def)
  also have "\<dots> = vdiv v (norm3 v)"
    using assms by (simp add: vdiv_smul)
  also have "\<dots> = normalize3 v"
    using False by (simp add: normalize3_def Let_def)
  finally show ?thesis .
qed

lemma normalize3_unit: "norm3 v = 1 \<Longrightarrow> normalize3 v = v"
  by (cases v) (simp add: normalize3_def)

text \<open>The geometry of a box tilted like \<open>tilt_box\<close>, with any positive edges.\<close>

lemma output_gamma35:
  assumes "alpha b = 90" "beta b = 90" "gamma b = gamma35" "0 < lx b" "0 < ly b" "0 < lz b"
  shows "output b = Inr \<lparr>o_org = round9v (x0 b, y0 b, z0 b),
                        o_len = round9v (lx b, ly b, lz b),
                        o_ang = (90, 90, round9 gamma35),
                        o_allow_tilt = True,
                        o_lo = round9v (x0 b, y0 b, z0 b),
                        o_hi = round9v (x0 b + lx b, y0 b + ly b, z0 b + lz b),
                        o_cos = (0, 0, 3 / 5),
                        o_abc = round9v (lx b, ly b * 5 / 4, lz b),
                        o_tilt = (round9 (ly b * 3 / 4), 0, 0),
                        o_v = ((round9 (lx b), 0, 0),
                               (round9 (ly b * 3 / 4), round9 (ly b), 0),
                               (0, 0, round9 (lz b))),
                        o_u = ((1, 0, 0), (3 / 5, 4 / 5, 0), (0, 0, 1)),
                        o_u_inv = ((1, 0, 0), (- (3 / 4), 5 / 4, 0), (0, 0, 1)),
                        o_bn = ((4 / 5, - (3 / 5), 0), (0, 1, 0), (0, 0, 1))\<rparr>"
proof -
  have n1: "normalize3 (ly b * 3 / 4, ly b, 0) = (3 / 5, 4 / 5, 0)"
  proof -
    have e: "(ly b * 3 / 4, ly b, 0) = smul (ly b * 5 / 4) (3 / 5, 4 / 5, 0)" by simp
    have k: "0 < ly b * 5 / 4" using assms(5) by simp
    have "normalize3 (ly b * 3 / 4, ly b, 0) = normalize3 (3 / 5, 4 / 5, 0)"
      unfolding e by (rule normalize3_smul [OF k])
    then show ?thesis by (simp only: normalize3_unit [OF norm3_345])
  qed
  have n2: "normalize3 (3 * ly b / 4, ly b, 0) = (3 / 5, 4 / 5, 0)"
    using n1 by (simp add: mult.commute)
  have c1: "cross (3 / 5, 4 / 5, 0) (0, 0, 1) = (4 / 5, - (3 / 5), 0)"
    by (simp add: cross_def normalize3_def norm3_435)
  have c2: "cross (0, 0, 1) (1, 0, 0) = (0, 1, 0)" by (rule bn_ident)
  have c3: "cross (1, 0, 0) (3 / 5, 4 / 5, 0) = (0, 0, 1)"
    by (simp add: cross_def normalize3_axis)
  have q: "x * 5 / 4 * 3 / 5 = x * 3 / 4" for x :: real by simp
  have sg: "sqrt (1 - (3 / 5)\<^sup>2) = 4 / 5"
    using sqrt_16_25 by (simp add: power2_eq_square)
  have nf: "\<not> (1 - (3 / 5 :: real)\<^sup>2 \<le> 0)" by (simp add: power2_eq_square)
  show ?thesis
    using assms nf
    by (simp add: output_def cos90 cos_gamma35 sg q
        Let_def normalize3_axis n1 n2 c1 c2 c3 round9_0 round9_1 r35 r45 rm35 rm34 r54 r90
        gamma35_ne_90)
      (simp add: mult.commute)
qed

lemma output_tilt_box:
  "output tilt_box = Inr \<lparr>o_org = (0, 0, 0), o_len = (1, 4 / 5, 1),
       o_ang = (90, 90, round9 gamma35),
       o_allow_tilt = True, o_lo = (0, 0, 0), o_hi = (1, 4 / 5, 1), o_cos = (0, 0, 3 / 5),
       o_abc = (1, 1, 1), o_tilt = (3 / 5, 0, 0),
       o_v = ((1, 0, 0), (3 / 5, 4 / 5, 0), (0, 0, 1)),
       o_u = ((1, 0, 0), (3 / 5, 4 / 5, 0), (0, 0, 1)),
       o_u_inv = ((1, 0, 0), (- (3 / 4), 5 / 4, 0), (0, 0, 1)),
       o_bn = ((4 / 5, - (3 / 5), 0), (0, 1, 0), (0, 0, 1))\<rparr>"
  by (subst output_gamma35)
     (simp_all add: tilt_box_def default_box_def round9_0 round9_1 r35 r45)

section \<open>The derived tilt flag\<close>

text \<open>
  Claim C10. Whenever the geometry of a box can be derived, the allow_tilt it reports
  is the stored flag or-ed with "some stored angle is not 90": it is true as soon as
  alpha, beta or gamma is not 90, whatever the stored flag.
\<close>

theorem output_allow_tilt_or:
  assumes "output b = Inr g"
  shows "(o_allow_tilt g \<longleftrightarrow> allow_tilt b \<or> alpha b \<noteq> 90 \<or> beta b \<noteq> 90 \<or> gamma b \<noteq> 90) \<and>
         (alpha b \<noteq> 90 \<or> beta b \<noteq> 90 \<or> gamma b \<noteq> 90 \<longrightarrow> o_allow_tilt g)"
  using assms
  by (auto simp: output_def Let_def split: if_splits sum.splits)

text \<open>
  The tilted example box stores allow_tilt = False with gamma other than 90, and its
  derived geometry reports allow_tilt = True.
\<close>

theorem output_allow_tilt_or_witness:
  "output tilt_box = Inr \<lparr>o_org = (0, 0, 0), o_len = (1, 4 / 5, 1),
       o_ang = (90, 90, round9 gamma35),
       o_allow_tilt = True, o_lo = (0, 0, 0), o_hi = (1, 4 / 5, 1), o_cos = (0, 0, 3 / 5),
       o_abc = (1, 1, 1), o_tilt = (3 / 5, 0, 0),
       o_v = ((1, 0, 0), (3 / 5, 4 / 5, 0), (0, 0, 1)),
       o_u = ((1, 0, 0), (3 / 5, 4 / 5, 0), (0, 0, 1)),
       o_u_inv = ((1, 0, 0), (- (3 / 4), 5 / 4, 0), (0, 0, 1)),
       o_bn = ((4 / 5, - (3 / 5), 0), (0, 1, 0), (0, 0, 1))\<rparr> \<and>
   gamma tilt_box \<noteq> 90 \<and> \<not> allow_tilt tilt_box"
  using output_allow_tilt_or [OF output_tilt_box] output_tilt_box gamma35_ne_90
  by (simp add: tilt_box_def default_box_def)

section \<open>Properties of extend\<close>

lemma input_basis_diag:
  assumes "0 < a" "0 < b" "0 < c"
  shows "input_basis ((a, 0, 0), (0, b, 0), (0, 0, c)) =
     \<lparr>c_lx = a, c_ly = b, c_lz = c, c_alpha = 90, c_beta = 90, c_gamma = 90\<rparr>"
  using assms by (simp add: input_basis_def Let_def normalize3_axis rad2deg_def)

lemma bbcheck_box2:
  "bbcheck box2 [(5 / 2, 5, 1 / 2)] =
     Inr \<lparr>inbound = [False], outbound = [True],
          dist = [[1 / 2, 5, 1 / 2, 1 / 2, - 4, 1 / 2]]\<rparr>"
  by (simp add: bbcheck_def output_box2 face_dist_def Let_def)

text \<open>When the containment test finds every point inbound, the box is returned as it is.\<close>

lemma extend_noop:
  assumes "bbcheck b pts = Inr bb" "\<forall>x \<in> set (outbound bb). \<not> x"
  shows "extend b pts flags = Inr b"
proof -
  obtain g where g: "output b = Inr g"
    using assms(1) by (auto simp: bbcheck_def split: sum.splits)
  have ib: "inbound bb = map (\<lambda>d. Min (set d) \<ge> 0) (map (face_dist g) pts)"
    and ob: "outbound bb = map Not (inbound bb)"
    using assms(1) g by (auto simp: bbcheck_def Let_def)
  have "\<forall>x \<in> set (inbound bb). x" using assms(2) ob by auto
  moreover have "length (inbound bb) = length pts" using ib by simp
  ultimately have "count_true (inbound bb) = length pts"
    using count_true_all by metis
  then show ?thesis by (simp add: extend_def g assms(1))
qed

subsection \<open>C8: a periodic axis\<close>

text \<open>
  Claim C8 on the unit cube whose low corner is at x = 2, extended for the point
  (5/2, 5, 1/2) with the x axis flagged periodic (pbc = [True, False, False]): the
  point is outbound along y only. The low end along x is multiplied by the flag's
  complement, which is 0, so x0 goes from 2 to 0, and the edge along x grows from
  1 to 3.
\<close>

theorem extend_periodic_axis_moves_origin:
  "x0 box2 = 2 \<and> lx box2 = 1 \<and>
   extend box2 [(5 / 2, 5, 1 / 2)] [True, False, False] =
     Inr \<lparr>x0 = 0, y0 = 0, z0 = 0, lx = 3, ly = 5 + eps, lz = 1,
          alpha = 90, beta = 90, gamma = 90, allow_tilt = False,
          bx = ''pp'', by = ''pp'', bz = ''pp''\<rparr>"
proof -
  have "extend box2 [(5 / 2, 5, 1 / 2)] [True, False, False] =
     Inr \<lparr>x0 = 0, y0 = 0, z0 = 0, lx = 3, ly = 5 + eps, lz = 1,
          alpha = 90, beta = 90, gamma = 90, allow_tilt = False,
          bx = ''pp'', by = ''pp'', bz = ''pp''\<rparr>"
    unfolding extend_def output_box2 bbcheck_box2
    by (simp add: count_true_def select_def pbc3_def
        mask_not_def as_int_def norm3_axis eps_def Let_def input_basis_diag update_conv_def)
      (simp add: box2_def default_box_def)
  then show ?thesis by (simp add: box2_def default_box_def)
qed

subsection \<open>C7: a tilted box\<close>

lemma input_basis_scaled:
  assumes "0 < k0" "0 < k1" "0 < k2"
  shows "input_basis (smul k0 r0, smul k1 r1, smul k2 r2) =
     \<lparr>c_lx = k0 * fst r0, c_ly = k1 * fst (snd r1), c_lz = k2 * snd (snd r2),
      c_alpha = arccos (dot (normalize3 r1) (normalize3 r2)) * rad2deg,
      c_beta = arccos (dot (normalize3 r0) (normalize3 r2)) * rad2deg,
      c_gamma = arccos (dot (normalize3 r0) (normalize3 r1)) * rad2deg\<rparr>"
proof -
  have f: "fst (smul k0 r0) = k0 * fst r0" "fst (snd (smul k1 r1)) = k1 * fst (snd r1)"
    "snd (snd (smul k2 r2)) = k2 * snd (snd r2)"
    by (cases r0, simp) (cases r1, simp, cases r2, simp)
  show ?thesis
    by (simp add: input_basis_def Let_def normalize3_smul assms f del: smul.simps)
qed

lemma bbcheck_tilt_box:
  "bbcheck tilt_box [(- 5, 2 / 5, 1 / 2)] =
     Inr \<lparr>inbound = [False], outbound = [True],
          dist = [[- (106 / 25), 2 / 5, 1 / 2, 126 / 25, 2 / 5, 1 / 2]]\<rparr>"
  by (simp add: bbcheck_def output_tilt_box face_dist_def Let_def)

lemma extend_tilt_box:
  "extend tilt_box [(- 5, 2 / 5, 1 / 2)] [False] = Inr grown"
proof -
  have ib: "input_basis (smul (6 + eps) (1, 0, 0), smul (4 + 3 / 5 * eps) (3 / 5, 4 / 5, 0),
                         smul 1 (0, 0, 1))
     = \<lparr>c_lx = 6 + eps, c_ly = (4 + 3 / 5 * eps) * (4 / 5), c_lz = 1,
        c_alpha = 90, c_beta = 90, c_gamma = gamma35\<rparr>"
    by (subst input_basis_scaled)
       (simp_all add: eps_def normalize3_axis normalize3_unit [OF norm3_345] gamma35_def
          rad2deg_def)
  have "extend tilt_box [(- 5, 2 / 5, 1 / 2)] [False] =
      Inr (update_conv (tilt_box\<lparr>x0 := - 5 - eps, y0 := 0, z0 := 0\<rparr>)
             (input_basis (smul (6 + eps) (1, 0, 0), smul (4 + 3 / 5 * eps) (3 / 5, 4 / 5, 0),
                         smul 1 (0, 0, 1))))"
    unfolding extend_def output_tilt_box bbcheck_tilt_box
    by (simp add: count_true_def select_def pbc3_def
        mask_not_def as_int_def norm3_axis norm3_345 eps_def Let_def)
  then show ?thesis
    unfolding ib by (simp add: update_conv_def tilt_box_def default_box_def grown_def)
qed

lemma output_grown:
  "output grown = Inr \<lparr>o_org = (- 5 - eps, 0, 0),
       o_len = (6 + eps, 16 / 5 + 12 / 25 * eps, 1),
       o_ang = (90, 90, round9 gamma35),
       o_allow_tilt = True, o_lo = (- 5 - eps, 0, 0),
       o_hi = (1, 16 / 5 + 12 / 25 * eps, 1), o_cos = (0, 0, 3 / 5),
       o_abc = (6 + eps, 4 + 3 / 5 * eps, 1), o_tilt = (12 / 5 + 9 / 25 * eps, 0, 0),
       o_v = ((6 + eps, 0, 0), (12 / 5 + 9 / 25 * eps, 16 / 5 + 12 / 25 * eps, 0), (0, 0, 1)),
       o_u = ((1, 0, 0), (3 / 5, 4 / 5, 0), (0, 0, 1)),
       o_u_inv = ((1, 0, 0), (- (3 / 4), 5 / 4, 0), (0, 0, 1)),
       o_bn = ((4 / 5, - (3 / 5), 0), (0, 1, 0), (0, 0, 1))\<rparr>"
  by (subst output_gamma35)
     (simp_all add: grown_def eps_def round9_0 round9_1, simp_all add: round9_def rint_def Let_def)

text \<open>
  Claim C7 on the tilted example box, extended for the point (-5, 2/5, 1/2) with no
  periodic axis: the point is outbound before, \<open>extend\<close> returns the box \<open>grown\<close>,
  and the containment test of \<open>grown\<close> on the same point still reports it outbound:
  its distance to the face xlo is 4/5 * eps - 6/25, which is negative.
\<close>

theorem extend_tilted_leaves_point_outbound:
  "extend tilt_box [(- 5, 2 / 5, 1 / 2)] [False] = Inr grown \<and>
   bbcheck grown [(- 5, 2 / 5, 1 / 2)] =
     Inr \<lparr>inbound = [False], outbound = [True],
          dist = [[4 / 5 * eps - 6 / 25, 2 / 5, 1 / 2,
                   126 / 25, 14 / 5 + 12 / 25 * eps, 1 / 2]]\<rparr>"
proof -
  have "bbcheck grown [(- 5, 2 / 5, 1 / 2)] =
     Inr \<lparr>inbound = [False], outbound = [True],
          dist = [[4 / 5 * eps - 6 / 25, 2 / 5, 1 / 2,
                   126 / 25, 14 / 5 + 12 / 25 * eps, 1 / 2]]\<rparr>"
    unfolding bbcheck_def output_grown
    by (simp add: face_dist_def Let_def eps_def)
  then show ?thesis using extend_tilt_box by simp
qed

section \<open>Properties of the round trip\<close>

subsection \<open>Rounding to nine decimals\<close>


lemma rint_ge_floor: "\<lfloor>y\<rfloor> \<le> rint y"
  unfolding rint_def Let_def by auto

lemma rint_mono_int: "of_int k \<le> y \<Longrightarrow> k \<le> rint y"
  using rint_ge_floor [of y] by (meson le_floor_iff order_trans)



lemma round9_ge: "of_int k / 10 ^ 9 \<le> x \<Longrightarrow> of_int k / 10 ^ 9 \<le> round9 x"
proof -
  assume "of_int k / 10 ^ 9 \<le> x"
  then have "of_int k \<le> x * 10 ^ 9" by (simp add: field_simps)
  then have "k \<le> rint (x * 10 ^ 9)" by (rule rint_mono_int)
  then have "real_of_int k \<le> of_int (rint (x * 10 ^ 9))" by simp
  then show ?thesis unfolding round9_def by (simp add: divide_right_mono)
qed

lemma round9_pos: "1 / 10 ^ 9 \<le> x \<Longrightarrow> 0 < round9 x"
proof -
  assume "1 / 10 ^ 9 \<le> x"
  then have "of_int 1 / 10 ^ 9 \<le> round9 x" using round9_ge [of 1 x] by simp
  then show ?thesis by (simp add: field_simps) 
qed

subsection \<open>The two ingestions of the round trip\<close>





subsection \<open>C1: the unit cell with gamma = 60\<close>




















subsection \<open>C1: when the six values are reproduced\<close>
















end
